theory Spec2Isabelle
  imports Complex_Main "HOL-Library.AList"
begin

section \<open>JavaScript values\<close>

text \<open>
  The values the handlers receive from parsed JSON bodies and pass between each other.
  \<open>JNum\<close> carries the integer-valued numbers (chat ids, update ids, answer indices) in
  the range where a JavaScript number is exact; \<open>JArr\<close> is an array of strings (a
  question list); \<open>JObj\<close> is an object whose property keys are integers and whose
  values are strings (an answer set).  A \<open>string\<close> is a sequence of UTF-16 code units
  below 256.
\<close>

datatype jsval = JUndefined | JNull | JBool bool | JNum int | JStr string
  | JArr "string list" | JObj "int \<rightharpoonup> string"

text \<open>\<open>!v\<close> is \<open>\<not> truthy v\<close>.\<close>

fun truthy :: "jsval \<Rightarrow> bool" where
  "truthy JUndefined = False"
| "truthy JNull = False"
| "truthy (JBool b) = b"
| "truthy (JNum n) = (n \<noteq> 0)"
| "truthy (JStr s) = (s \<noteq> [])"
| "truthy (JArr xs) = True"
| "truthy (JObj m) = True"

definition digit_char :: "nat \<Rightarrow> char" where
  "digit_char d = ''0123456789'' ! d"

fun show_nat :: "nat \<Rightarrow> string" where
  "show_nat n = (if n < 10 then [digit_char n] else show_nat (n div 10) @ [digit_char (n mod 10)])"

declare show_nat.simps [simp del]

fun join_comma :: "string list \<Rightarrow> string" where
  "join_comma [] = []"
| "join_comma [x] = x"
| "join_comma (x # y # ys) = x @ '','' @ join_comma (y # ys)"

text \<open>\<open>String(v)\<close>, the conversion the state manager applies to a chat id.\<close>

fun String_js :: "jsval \<Rightarrow> string" where
  "String_js JUndefined = ''undefined''"
| "String_js JNull = ''null''"
| "String_js (JBool b) = (if b then ''true'' else ''false'')"
| "String_js (JNum n) = (if n < 0 then CHR ''-'' # show_nat (nat (- n)) else show_nat (nat n))"
| "String_js (JStr s) = s"
| "String_js (JArr xs) = join_comma xs"
| "String_js (JObj m) = ''[object Object]''"

section \<open>The message parser: \<open>utils/telegramParser.js\<close>\<close>

subsection \<open>Character classes\<close>

text \<open>
  \<open>\d\<close> is an ASCII digit.  \<open>\s\<close> and \<open>trim()\<close> share one set of white space, which
  includes the line terminators; below code unit 256 it is tab, line feed, vertical
  tab, form feed, carriage return, space and no-break space.  The dot matches every
  character but a line terminator.
\<close>

definition is_digit :: "char \<Rightarrow> bool" where
  "is_digit c = (48 \<le> (of_char c :: nat) \<and> (of_char c :: nat) \<le> 57)"

definition is_space :: "char \<Rightarrow> bool" where
  "is_space c = ((of_char c :: nat) \<in> {9, 10, 11, 12, 13, 32, 160})"

definition is_line_terminator :: "char \<Rightarrow> bool" where
  "is_line_terminator c = ((of_char c :: nat) \<in> {10, 13})"

text \<open>The class \<open>[.:\-\)\s]\<close>.\<close>

definition is_sep :: "char \<Rightarrow> bool" where
  "is_sep c = (c \<in> {CHR ''.'', CHR '':'', CHR ''-'', CHR '')''} \<or> is_space c)"

definition is_dot :: "char \<Rightarrow> bool" where
  "is_dot c = (\<not> is_line_terminator c)"

subsection \<open>String functions\<close>

definition trim :: "string \<Rightarrow> string" where
  "trim s = rev (dropWhile is_space (rev (dropWhile is_space s)))"

text \<open>\<open>s.split('\n')\<close>: the pieces between line feeds, never an empty list.\<close>

fun split_nl :: "string \<Rightarrow> string list" where
  "split_nl [] = [[]]"
| "split_nl (c # cs) =
     (if c = CHR 0x0A then [] # split_nl cs
      else case split_nl cs of [] \<Rightarrow> [[c]] | l # ls \<Rightarrow> (c # l) # ls)"

definition digits_value :: "string \<Rightarrow> nat" where
  "digits_value ds = fold (\<lambda>c n. 10 * n + (of_char c - 48)) ds 0"

text \<open>
  \<open>parseInt(s, 10)\<close>: white space is skipped, a sign is read, then the longest run of
  digits; with no digit the result is \<open>NaN\<close>, here \<open>None\<close>.  Numbers are the exact
  integers.  JavaScript computes with doubles, which are exact below \<open>2^53\<close>: a run of
  digits of that value or more is rounded there and is kept exact here.
\<close>

definition parseInt10 :: "string \<Rightarrow> int option" where
  "parseInt10 s =
     (let t = dropWhile is_space s;
          neg = (t \<noteq> [] \<and> hd t = CHR ''-'');
          u = (if t \<noteq> [] \<and> (hd t = CHR ''-'' \<or> hd t = CHR ''+'') then tl t else t);
          ds = takeWhile is_digit u
      in if ds = [] then None
         else Some (if neg then - int (digits_value ds) else int (digits_value ds)))"

subsection \<open>The regular expression\<close>

text \<open>
  A backtracking matcher in continuation style, as the regular expression engine runs:
  a piece of the pattern consumes a prefix of the input and hands the text it matched
  and the rest to its continuation; when the continuation fails, the piece tries its
  next alternative.  A greedy quantifier over a character class tries the longest run
  first and gives characters back one at a time.
\<close>

fun rx_star :: "(char \<Rightarrow> bool) \<Rightarrow> string \<Rightarrow> (string \<Rightarrow> string \<Rightarrow> 'a option) \<Rightarrow> 'a option" where
  "rx_star P [] k = k [] []"
| "rx_star P (c # cs) k =
     (if P c
      then (case rx_star P cs (\<lambda>m. k (c # m)) of Some r \<Rightarrow> Some r | None \<Rightarrow> k [] (c # cs))
      else k [] (c # cs))"

definition rx_plus :: "(char \<Rightarrow> bool) \<Rightarrow> string \<Rightarrow> (string \<Rightarrow> string \<Rightarrow> 'a option) \<Rightarrow> 'a option" where
  "rx_plus P s k =
     (case s of
        [] \<Rightarrow> None
      | c # cs \<Rightarrow> if P c then rx_star P cs (\<lambda>m. k (c # m)) else None)"

text \<open>A greedy optional group without capture: first with the group, then without.\<close>

definition rx_opt ::
  "(string \<Rightarrow> (string \<Rightarrow> 'a option) \<Rightarrow> 'a option) \<Rightarrow> string \<Rightarrow> (string \<Rightarrow> 'a option) \<Rightarrow> 'a option" where
  "rx_opt inner s k = (case inner s k of Some r \<Rightarrow> Some r | None \<Rightarrow> k s)"

definition rx_end :: "'a \<Rightarrow> string \<Rightarrow> 'a option" where
  "rx_end r s = (if s = [] then Some r else None)"

text \<open>
  \<open>s.match(/^(\d+)(?:[.:\-\)\s]+)?\s*(.+)$/)\<close>: the two captures, or \<open>None\<close> for
  \<open>null\<close>.  The pattern is anchored at the start, so only position 0 is tried.
\<close>

definition answer_regex :: "string \<Rightarrow> (string \<times> string) option" where
  "answer_regex s =
     rx_plus is_digit s (\<lambda>m1 s1.
       rx_opt (\<lambda>s k. rx_plus is_sep s (\<lambda>_. k)) s1 (\<lambda>s2.
         rx_star is_space s2 (\<lambda>_ s3.
           rx_plus is_dot s3 (\<lambda>m2 s4.
             rx_end (m1, m2) s4))))"

subsection \<open>\<open>parseNumberedAnswers\<close>\<close>

text \<open>The body of the loop over the lines: \<open>answers\<close> before and after one line.\<close>

definition add_line :: "string \<Rightarrow> (int \<rightharpoonup> string) \<Rightarrow> (int \<rightharpoonup> string)" where
  "add_line line answers =
     (if trim line = [] then answers
      else case answer_regex (trim line) of
        None \<Rightarrow> answers
      | Some (m1, m2) \<Rightarrow>
          (case parseInt10 m1 of
             None \<Rightarrow> answers
           | Some questionNumber \<Rightarrow>
               let answer = trim m2
               in if answer \<noteq> [] then answers(questionNumber \<mapsto> answer) else answers))"

definition parseNumberedAnswers :: "jsval \<Rightarrow> (int \<rightharpoonup> string)" where
  "parseNumberedAnswers messageText =
     (case messageText of
        JStr s \<Rightarrow> if s = [] then Map.empty else fold add_line (split_nl s) Map.empty
      | _ \<Rightarrow> Map.empty)"

subsection \<open>The shape of a line\<close>

text \<open>
  What the regular expression computes, read off the line from left to right.
  \<open>rest_answer P r\<close> is the answer in \<open>r\<close>, the text after the digits, when the
  characters of class \<open>P\<close> are skipped: what follows them when that is not empty and
  holds no line terminator; the last character alone when \<open>r\<close> has nothing else.
  \<open>line_split t\<close> is the pair of the digits and the answer: a line of nothing but
  digits gives its last digit up as the answer.
\<close>

definition rest_answer :: "(char \<Rightarrow> bool) \<Rightarrow> string \<Rightarrow> string option" where
  "rest_answer P r =
     (let a = dropWhile P r
      in if a \<noteq> [] then (if list_all is_dot a then Some a else None)
         else if r \<noteq> [] \<and> is_dot (last r) then Some [last r] else None)"


subsection \<open>\<open>matchAnswersToQuestions\<close>\<close>

text \<open>\<open>typeof v === 'object'\<close>.\<close>

fun typeof_object :: "jsval \<Rightarrow> bool" where
  "typeof_object JNull = True"
| "typeof_object (JArr xs) = True"
| "typeof_object (JObj m) = True"
| "typeof_object _ = False"

text \<open>\<open>v[n]\<close> for a number \<open>n\<close>; \<open>None\<close> is \<open>undefined\<close>.\<close>

fun js_prop :: "jsval \<Rightarrow> int \<Rightarrow> string option" where
  "js_prop (JObj m) n = m n"
| "js_prop (JArr xs) n = (if 0 \<le> n \<and> nat n < length xs then Some (xs ! nat n) else None)"
| "js_prop (JStr s) n = (if 0 \<le> n \<and> nat n < length s then Some [s ! nat n] else None)"
| "js_prop _ n = None"

text \<open>
  The \<open>forEach\<close> over the questions from position \<open>index\<close> on.  The result is an
  object keyed by the question text.
\<close>

fun match_each :: "jsval \<Rightarrow> string list \<Rightarrow> nat \<Rightarrow> (string \<rightharpoonup> string) \<Rightarrow> (string \<rightharpoonup> string)" where
  "match_each answers [] index matchedResult = matchedResult"
| "match_each answers (question # rest) index matchedResult =
     (let answerNumber = int index + 1
      in match_each answers rest (Suc index)
           (case js_prop answers answerNumber of
              None \<Rightarrow> matchedResult
            | Some a \<Rightarrow> if a \<noteq> [] then matchedResult(question \<mapsto> a) else matchedResult))"

definition matchAnswersToQuestions :: "jsval \<Rightarrow> jsval \<Rightarrow> (string \<rightharpoonup> string)" where
  "matchAnswersToQuestions questions answers =
     (case questions of
        JArr qs \<Rightarrow>
          if qs = [] \<or> \<not> truthy answers \<or> \<not> typeof_object answers then Map.empty
          else match_each answers qs 0 Map.empty
      | _ \<Rightarrow> Map.empty)"


section \<open>Conversation state: \<open>services/email-state.js\<close>\<close>

text \<open>
  The email a question set came from.  A field that is missing, \<open>null\<close> or
  \<open>undefined\<close> is \<open>None\<close>.
\<close>

record email =
  subject :: "string option"
  body :: "string option"
  sender :: "string option"
  threadId :: "string option"

text \<open>
  The stored state of one chat.  \<open>timestamp\<close> is the instant of storing in
  milliseconds (\<open>Date.now()\<close>).
\<close>

record emailData =
  originalEmail :: email
  questions :: "string list"
  timestamp :: int

text \<open>
  \<open>activeEmails\<close> of the state manager: a JavaScript \<open>Map\<close> with string keys, kept in
  insertion order.  \<open>Map.set\<close> is \<open>AList.update\<close> (an existing key keeps its place, a
  new key goes to the end), \<open>Map.get\<close> is \<open>map_of\<close>, \<open>Map.delete\<close> is
  \<open>AList.delete\<close>.
\<close>

type_synonym activeEmails = "(string \<times> emailData) list"

text \<open>
  \<open>storeEmail(chatId, emailData)\<close>; the first argument is the value of \<open>Date.now()\<close>,
  an absent \<open>emailData\<close> is \<open>None\<close>.
\<close>

definition storeEmail :: "int \<Rightarrow> jsval \<Rightarrow> emailData option \<Rightarrow> activeEmails \<Rightarrow> activeEmails" where
  "storeEmail now chatId emailData m =
     (if \<not> truthy chatId then m
      else case emailData of
        None \<Rightarrow> m
      | Some e \<Rightarrow> AList.update (String_js chatId) (e\<lparr>timestamp := now\<rparr>) m)"

definition expiryTime :: int where
  "expiryTime = 24 * 60 * 60 * 1000"

text \<open>\<open>getEmail(chatId)\<close> returns the state or \<open>null\<close>, and the map it leaves behind.\<close>

definition getEmail :: "int \<Rightarrow> jsval \<Rightarrow> activeEmails \<Rightarrow> emailData option \<times> activeEmails" where
  "getEmail now chatId m =
     (if \<not> truthy chatId then (None, m)
      else case map_of m (String_js chatId) of
        None \<Rightarrow> (None, m)
      | Some e \<Rightarrow>
          if now - timestamp e > expiryTime
          then (None, AList.delete (String_js chatId) m)
          else (Some e, m))"

definition clearEmail :: "jsval \<Rightarrow> activeEmails \<Rightarrow> activeEmails" where
  "clearEmail chatId m = (if \<not> truthy chatId then m else AList.delete (String_js chatId) m)"

text \<open>
  One entry of \<open>listActiveEmails()\<close>.  \<open>s_age\<close> is the number of minutes, \<open>Math.round\<close>
  of the age in milliseconds over \<open>60 * 1000\<close>.
\<close>

record summary =
  s_chatId :: string
  s_subject :: "string option"
  s_timestamp :: int
  s_age :: int

definition listActiveEmails :: "int \<Rightarrow> activeEmails \<Rightarrow> summary list" where
  "listActiveEmails now m =
     map (\<lambda>(key, v). \<lparr>s_chatId = key, s_subject = subject (originalEmail v),
                       s_timestamp = timestamp v,
                       s_age = (2 * (now - timestamp v) + 60000) div 120000\<rparr>) m"

section \<open>The polling loop: \<open>services/telegram/polling.js\<close>\<close>

text \<open>A Telegram update as the handlers read it.  A missing \<open>update_id\<close> is \<open>0\<close>.\<close>

record message =
  chat_id :: jsval
  msg_text :: "string option"

record update =
  update_id :: int
  message :: "message option"

text \<open>The module variables of the polling service, with their initial values.\<close>

record poll_state =
  lastUpdateId :: int
  isPollingActive :: bool
  retryCount :: nat
  retryDelay :: real

definition initial_poll_state :: poll_state where
  "initial_poll_state =
     \<lparr>lastUpdateId = 0, isPollingActive = False, retryCount = 0, retryDelay = 5000\<rparr>"

text \<open>
  What one request to Telegram gives: the \<open>result\<close> array, or an error with its
  message (\<open>getUpdates\<close> rethrows every error to its caller).
\<close>

datatype fetched = Result "update list" | Thrown string

text \<open>\<open>s.includes(pat)\<close>.\<close>

fun js_includes :: "string \<Rightarrow> string \<Rightarrow> bool" where
  "js_includes [] pat = (pat = [])"
| "js_includes (c # cs) pat = (take (length pat) (c # cs) = pat \<or> js_includes cs pat)"

definition is_conflict :: "string \<Rightarrow> bool" where
  "is_conflict msg = js_includes msg ''Conflict: terminated by other getUpdates request''"

definition getUpdates :: "fetched \<Rightarrow> poll_state \<Rightarrow> (string + update list) \<times> poll_state" where
  "getUpdates response s =
     (case response of
        Thrown msg \<Rightarrow> (Inl msg, s)
      | Result [] \<Rightarrow> (Inr [], s)
      | Result (u # us) \<Rightarrow>
          (Inr (u # us), s\<lparr>lastUpdateId := fold max (map update_id us) (update_id u)\<rparr>))"

text \<open>
  \<open>handleUpdate\<close> works on a world \<open>'w\<close> of its own and either returns or throws
  (\<open>Inl\<close> with the message); what it did to the world before throwing stays done.
\<close>

type_synonym 'w handler = "update \<Rightarrow> 'w \<Rightarrow> (string + unit) \<times> 'w"

text \<open>
  The loop over one batch.  The second component is the console log of the loop, the
  ids printed by \<open>Processing update ID\<close> before each call of the handler.
\<close>

fun process_updates :: "'w handler \<Rightarrow> update list \<Rightarrow> 'w \<Rightarrow> 'w \<times> int list" where
  "process_updates handleUpdate [] w = (w, [])"
| "process_updates handleUpdate (u # us) w =
     (case handleUpdate u w of
        (Inr _, w') \<Rightarrow>
          (case process_updates handleUpdate us w' of (w'', ids) \<Rightarrow> (w'', update_id u # ids))
      | (Inl processError, w') \<Rightarrow>
          (case process_updates handleUpdate us w' of (w'', ids) \<Rightarrow> (w'', update_id u # ids)))"

text \<open>
  One run of \<open>pollOnce\<close>.  \<open>response\<close> is what the request gives, \<open>random\<close> the value
  of \<open>Math.random()\<close>.  The result is the new module state, the new world and the delay
  of the timer set for the next run, \<open>None\<close> when no timer is set.  Delays are real
  numbers of milliseconds.
\<close>

definition pollOnce ::
  "'w handler \<Rightarrow> real \<Rightarrow> fetched \<Rightarrow> real \<Rightarrow> poll_state \<Rightarrow> 'w \<Rightarrow> poll_state \<times> 'w \<times> real option" where
  "pollOnce handleUpdate interval response random s w =
     (if \<not> isPollingActive s then (s, w, None)
      else case getUpdates response s of
        (Inr updates, s1) \<Rightarrow>
          (s1\<lparr>retryCount := 0, retryDelay := 5000\<rparr>,
           (if updates \<noteq> [] then fst (process_updates handleUpdate updates w) else w),
           Some interval)
      | (Inl msg, s1) \<Rightarrow>
          if is_conflict msg
          then let s2 = s1\<lparr>retryCount := retryCount s1 + 1\<rparr>;
                   jitter = random * 1000;
                   s3 = s2\<lparr>retryDelay := min 60000 (retryDelay s2 * 1.5) + jitter\<rparr>
               in if retryCount s3 > 10
                  then (s3\<lparr>isPollingActive := False\<rparr>, w, None)
                  else (s3, w, Some (retryDelay s3))
          else (s1, w, Some interval))"

text \<open>\<open>startPolling\<close> up to its first \<open>pollOnce\<close>: the instance becomes the active one.\<close>

definition startPolling :: "poll_state \<Rightarrow> poll_state" where
  "startPolling s = s\<lparr>isPollingActive := True\<rparr>"

text \<open>
  The runs that the timers chain, one per element of the input list, until a run sets
  no timer.  The third component lists the delays of the timers set.
\<close>

fun poll_loop ::
  "'w handler \<Rightarrow> real \<Rightarrow> (fetched \<times> real) list \<Rightarrow> poll_state \<Rightarrow> 'w \<Rightarrow> poll_state \<times> 'w \<times> real list" where
  "poll_loop h interval [] s w = (s, w, [])"
| "poll_loop h interval ((response, random) # rest) s w =
     (case pollOnce h interval response random s w of
        (s', w', None) \<Rightarrow> (s', w', [])
      | (s', w', Some delay) \<Rightarrow>
          (case poll_loop h interval rest s' w' of (s'', w'', ds) \<Rightarrow> (s'', w'', delay # ds)))"

text \<open>A run of conflict errors, and the jitter of each.\<close>

definition conflicts :: "string \<Rightarrow> real list \<Rightarrow> (fetched \<times> real) list" where
  "conflicts msg randoms = map (\<lambda>r. (Thrown msg, r)) randoms"

definition jitters :: "real list \<Rightarrow> real list" where
  "jitters randoms = map (\<lambda>r. r * 1000) randoms"

text \<open>
  The backoff as the specification words it: each delay is
  \<open>min(60s, previousDelay * 1.5) + jitter\<close>; \<open>backoff_bases\<close> lists the delays without
  their own jitter.
\<close>

fun backoff_delays :: "real \<Rightarrow> real list \<Rightarrow> real list" where
  "backoff_delays previousDelay [] = []"
| "backoff_delays previousDelay (jitter # js) =
     (min 60000 (previousDelay * 1.5) + jitter)
       # backoff_delays (min 60000 (previousDelay * 1.5) + jitter) js"

fun backoff_bases :: "real \<Rightarrow> real list \<Rightarrow> real list" where
  "backoff_bases previousDelay [] = []"
| "backoff_bases previousDelay (jitter # js) =
     min 60000 (previousDelay * 1.5)
       # backoff_bases (min 60000 (previousDelay * 1.5) + jitter) js"

text \<open>
  The three states of the specification, read off the module variables: the source has
  no state variable of its own.
\<close>

datatype phase = STOPPED | POLLING | BACKOFF

definition phase_of :: "poll_state \<Rightarrow> phase" where
  "phase_of s = (if \<not> isPollingActive s then STOPPED
                 else if retryCount s = 0 then POLLING else BACKOFF)"

section \<open>The webhook route: \<open>routes/telegram.js\<close>\<close>

subsection \<open>The map of the route\<close>

text \<open>
  \<open>activeEmails\<close> of the route is a \<open>Map\<close> keyed by the chat id as it arrives, with no
  conversion.  \<open>Map\<close> compares keys by SameValueZero: primitive values by type and
  value, objects by identity.  Every request body is parsed afresh, so an array or
  object never is the key of an earlier request.
\<close>

fun same_key :: "jsval \<Rightarrow> jsval \<Rightarrow> bool" where
  "same_key (JArr xs) k = False"
| "same_key (JObj m) k = False"
| "same_key k' k = (k' = k)"

fun Map_get :: "jsval \<Rightarrow> (jsval \<times> 'v) list \<Rightarrow> 'v option" where
  "Map_get k [] = None"
| "Map_get k ((k', v) # m) = (if same_key k' k then Some v else Map_get k m)"

fun Map_set :: "jsval \<Rightarrow> 'v \<Rightarrow> (jsval \<times> 'v) list \<Rightarrow> (jsval \<times> 'v) list" where
  "Map_set k v [] = [(k, v)]"
| "Map_set k v ((k', v') # m) =
     (if same_key k' k then (k', v) # m else (k', v') # Map_set k v m)"

fun Map_delete :: "jsval \<Rightarrow> (jsval \<times> 'v) list \<Rightarrow> (jsval \<times> 'v) list" where
  "Map_delete k [] = []"
| "Map_delete k ((k', v') # m) = (if same_key k' k then m else (k', v') # Map_delete k m)"


type_synonym routeEmails = "(jsval \<times> emailData) list"

subsection \<open>Collaborators\<close>

text \<open>
  The messages the route sends, the calls it makes to its collaborators, and what the
  collaborators answer: \<open>generateReply\<close> gives the reply text or fails (\<open>None\<close>: it
  throws, or its result has no \<open>replyText\<close>), the others succeed or throw.
\<close>

datatype outgoing = DraftReply string | DraftSaved | DraftNotSaved | GenerationError | NoActiveEmail

datatype call = GenerateReply email | SendMessage jsval outgoing | CreateDraft

record collaborators =
  generateReply :: "email \<Rightarrow> (string \<rightharpoonup> string) \<Rightarrow> string option"
  deliver :: "jsval \<Rightarrow> outgoing \<Rightarrow> bool"
  createDraft :: "string option \<Rightarrow> string option \<Rightarrow> string option \<Rightarrow> string \<Rightarrow> bool"
  sendEmailQuestions :: "jsval \<Rightarrow> string list \<Rightarrow> email \<Rightarrow> bool"

text \<open>\<open>telegramService.sendMessage\<close> throws on a falsy chat id before it sends.\<close>

definition sendMessage :: "collaborators \<Rightarrow> jsval \<Rightarrow> outgoing \<Rightarrow> bool" where
  "sendMessage env chatId msg = (truthy chatId \<and> deliver env chatId msg)"

subsection \<open>\<open>POST /webhook\<close>\<close>

definition missing :: "string option \<Rightarrow> bool" where
  "missing field = (case field of None \<Rightarrow> True | Some s \<Rightarrow> s = [])"

definition or_default :: "string option \<Rightarrow> string \<Rightarrow> string" where
  "or_default field d = (case field of None \<Rightarrow> d | Some s \<Rightarrow> if s \<noteq> [] then s else d)"

definition ensure_fields :: "email \<Rightarrow> email" where
  "ensure_fields e =
     (if missing (subject e) \<or> missing (body e) \<or> missing (sender e)
      then e\<lparr>subject := Some (or_default (subject e) ''[No Subject]''),
             body := Some (or_default (body e) []),
             sender := Some (or_default (sender e) ''[Unknown Sender]'')\<rparr>
      else e)"

text \<open>
  The branch for a chat with an active email: the \<open>try\<close> block and its \<open>catch\<close>.  The
  placeholders are written into the stored object.  The result is the map and the calls
  made, in order.  A send that throws inside the \<open>try\<close> leads to the \<open>catch\<close>, which
  sends the error notice; a throw of that last send is caught by the route, which
  answers 200 all the same.
\<close>

definition answer_flow ::
  "collaborators \<Rightarrow> jsval \<Rightarrow> emailData \<Rightarrow> jsval \<Rightarrow> routeEmails \<Rightarrow> routeEmails \<times> call list" where
  "answer_flow env chatId emailData data m =
     (let finalAnswersObject = matchAnswersToQuestions (JArr (questions emailData)) data;
          e = ensure_fields (originalEmail emailData);
          m1 = Map_set chatId (emailData\<lparr>originalEmail := e\<rparr>) m
      in case generateReply env e finalAnswersObject of
           None \<Rightarrow> (m1, [GenerateReply e, SendMessage chatId GenerationError])
         | Some replyText \<Rightarrow>
             if \<not> sendMessage env chatId (DraftReply replyText)
             then (m1, [GenerateReply e, SendMessage chatId (DraftReply replyText),
                        SendMessage chatId GenerationError])
             else
               let sent = [GenerateReply e, SendMessage chatId (DraftReply replyText), CreateDraft]
               in if createDraft env (threadId e) (sender e) (subject e) replyText
                  then if sendMessage env chatId DraftSaved
                       then (Map_delete chatId m1, sent @ [SendMessage chatId DraftSaved])
                       else if sendMessage env chatId DraftNotSaved
                            then (Map_delete chatId m1,
                                  sent @ [SendMessage chatId DraftSaved,
                                          SendMessage chatId DraftNotSaved])
                            else (m1, sent @ [SendMessage chatId DraftSaved,
                                              SendMessage chatId DraftNotSaved,
                                              SendMessage chatId GenerationError])
                  else if sendMessage env chatId DraftNotSaved
                       then (Map_delete chatId m1, sent @ [SendMessage chatId DraftNotSaved])
                       else (m1, sent @ [SendMessage chatId DraftNotSaved,
                                         SendMessage chatId GenerationError]))"

text \<open>
  The handler: the map after it, the calls made and the HTTP status.  A message whose
  text starts with \<open>/\<close> is a command and has no effect; a message without text is not
  processed; every other message is an answer.
\<close>

definition webhook :: "collaborators \<Rightarrow> update \<Rightarrow> routeEmails \<Rightarrow> routeEmails \<times> call list \<times> nat" where
  "webhook env update m =
     (if update_id update = 0 then (m, [], 400)
      else case message update of
        None \<Rightarrow> (m, [], 200)
      | Some msg \<Rightarrow>
          let chatId = chat_id msg;
              messageText = (case msg_text msg of None \<Rightarrow> [] | Some t \<Rightarrow> t)
          in if messageText \<noteq> [] \<and> hd messageText = CHR ''/'' then (m, [], 200)
             else if messageText = [] then (m, [], 200)
             else
               let data = JObj (parseNumberedAnswers (JStr messageText))
               in case Map_get chatId m of
                    Some emailData \<Rightarrow>
                      (case answer_flow env chatId emailData data m of
                         (m', calls) \<Rightarrow> (m', calls, 200))
                  | None \<Rightarrow> (m, [SendMessage chatId NoActiveEmail], 200))"

subsection \<open>\<open>POST /send-email-questions\<close>\<close>

text \<open>
  The registration of a question set.  The instant \<open>now\<close> goes into \<open>timestamp\<close> (the
  route stores it as an ISO string and never reads it).
\<close>

definition send_email_questions ::
  "collaborators \<Rightarrow> int \<Rightarrow> jsval \<Rightarrow> jsval \<Rightarrow> email option \<Rightarrow> routeEmails \<Rightarrow> routeEmails \<times> nat" where
  "send_email_questions env now chatId questionsArg emailArg m =
     (case (questionsArg, emailArg) of
        (JArr qs, Some e) \<Rightarrow>
          if \<not> truthy chatId \<or> qs = [] then (m, 400)
          else (Map_set chatId \<lparr>originalEmail = e, questions = qs, timestamp = now\<rparr> m,
                if sendEmailQuestions env chatId qs e then 200 else 500)
      | _ \<Rightarrow> (m, 400))"

section \<open>Example inputs\<close>

definition state0 :: emailData where
  "state0 = \<lparr>originalEmail = \<lparr>subject = Some ''Quote'', body = Some ''How much?'',
                sender = Some ''a@example.org'', threadId = Some ''t1''\<rparr>,
             questions = [''Price?'', ''When?''], timestamp = 0\<rparr>"

definition state1 :: emailData where
  "state1 = \<lparr>originalEmail = \<lparr>subject = Some ''Invoice'', body = Some ''Please confirm.'',
                sender = Some ''b@example.org'', threadId = Some ''t2''\<rparr>,
             questions = [''Approve?''], timestamp = 0\<rparr>"

definition answer_update :: "jsval \<Rightarrow> string \<Rightarrow> update" where
  "answer_update c t = \<lparr>update_id = 1, message = Some \<lparr>chat_id = c, msg_text = Some t\<rparr>\<rparr>"

definition env_ok :: collaborators where
  "env_ok = \<lparr>generateReply = (\<lambda>e answers. Some ''Dear customer''),
             deliver = (\<lambda>c msg. True),
             createDraft = (\<lambda>thread to subj text. True),
             sendEmailQuestions = (\<lambda>c qs e. True)\<rparr>"




text \<open>A handler that throws on update 2 and records every other update.\<close>

definition flaky :: "int list handler" where
  "flaky u w = (if update_id u = 2 then (Inl ''boom'', w) else (Inr (), w @ [update_id u]))"


definition conflict_message :: string where
  "conflict_message = ''Telegram API error: Conflict: terminated by other getUpdates request; make sure that only one bot instance is running''"



section \<open>The regular expression, in closed form\<close>




lemma rest_answer_Nil [simp]: "rest_answer Q [] = None"
  by (simp add: rest_answer_def)






































section \<open>Matching answers to questions\<close>










section \<open>The polling loop\<close>



lemma backoff_delays_bases:
  "backoff_delays d js = map2 (+) (backoff_bases d js) js"
  by (induction js arbitrary: d) simp_all

lemma length_backoff_bases [simp]: "length (backoff_bases d js) = length js"
  by (induction js arbitrary: d) simp_all

lemma length_backoff_delays [simp]: "length (backoff_delays d js) = length js"
  by (induction js arbitrary: d) simp_all

lemma backoff_bases_bounds:
  "0 \<le> d \<Longrightarrow> list_all (\<lambda>j. 0 \<le> j) js \<Longrightarrow> x \<in> set (backoff_bases d js)
   \<Longrightarrow> min 60000 d \<le> x \<and> x \<le> 60000"
proof (induction js arbitrary: d)
  case Nil
  then show ?case by simp
next
  case (Cons j js)
  let ?b = "min 60000 (d * 1.5)"
  from Cons.prems have j: "0 \<le> j" and js: "list_all (\<lambda>j. 0 \<le> j) js" by simp_all
  from Cons.prems(1) have b: "min 60000 d \<le> ?b" "?b \<le> 60000" "0 \<le> ?b" by (simp_all add: min_def)
  from Cons.prems(3) consider "x = ?b" | "x \<in> set (backoff_bases (?b + j) js)" by auto
  then show ?case
  proof cases
    case 1
    with b show ?thesis by simp
  next
    case 2
    from b j have "0 \<le> ?b + j" by simp
    from Cons.IH [OF this js 2] have "min 60000 (?b + j) \<le> x" "x \<le> 60000" by simp_all
    moreover from b j have "min 60000 d \<le> min 60000 (?b + j)" by (simp add: min_def)
    ultimately show ?thesis by simp
  qed
qed

lemma backoff_bases_sorted:
  "0 \<le> d \<Longrightarrow> list_all (\<lambda>j. 0 \<le> j) js \<Longrightarrow> sorted (backoff_bases d js)"
proof (induction js arbitrary: d)
  case Nil
  then show ?case by simp
next
  case (Cons j js)
  let ?b = "min 60000 (d * 1.5)"
  from Cons.prems have j: "0 \<le> j" and js: "list_all (\<lambda>j. 0 \<le> j) js" by simp_all
  from Cons.prems(1) have b: "?b \<le> 60000" "0 \<le> ?b" by (simp_all add: min_def)
  with j have nn: "0 \<le> ?b + j" by simp
  have "\<forall>x \<in> set (backoff_bases (?b + j) js). ?b \<le> x"
  proof
    fix x assume "x \<in> set (backoff_bases (?b + j) js)"
    from backoff_bases_bounds [OF nn js this] have "min 60000 (?b + j) \<le> x" by simp
    moreover from b j have "?b \<le> min 60000 (?b + j)" by (simp add: min_def)
    ultimately show "?b \<le> x" by simp
  qed
  with Cons.IH [OF nn js] show ?case by simp
qed

lemma pollOnce_stopped:
  "\<not> isPollingActive s \<Longrightarrow> pollOnce h iv response random s w = (s, w, None)"
  by (simp add: pollOnce_def)

lemma poll_loop_stopped:
  "\<not> isPollingActive s \<Longrightarrow> poll_loop h iv inputs s w = (s, w, [])"
  by (cases inputs) (auto simp: pollOnce_stopped)

lemma pollOnce_conflict:
  assumes "isPollingActive s" "is_conflict msg"
  shows "pollOnce h iv (Thrown msg) random s w =
    (if retryCount s < 10
     then (s\<lparr>retryCount := retryCount s + 1,
              retryDelay := min 60000 (retryDelay s * 1.5) + random * 1000\<rparr>, w,
           Some (min 60000 (retryDelay s * 1.5) + random * 1000))
     else (s\<lparr>retryCount := retryCount s + 1,
              retryDelay := min 60000 (retryDelay s * 1.5) + random * 1000,
              isPollingActive := False\<rparr>, w, None))"
  using assms by (simp add: pollOnce_def getUpdates_def Let_def)

lemma pollOnce_success:
  assumes "isPollingActive s"
  shows "\<exists>s' w'. pollOnce h iv (Result us) random s w = (s', w', Some iv)
     \<and> retryCount s' = 0 \<and> retryDelay s' = 5000 \<and> isPollingActive s'"
  using assms by (cases us) (simp_all add: pollOnce_def getUpdates_def)

lemma conflicts_backoff:
  assumes "is_conflict msg"
  shows "isPollingActive s \<Longrightarrow> retryCount s + length rs \<le> 10 \<Longrightarrow>
    poll_loop h iv (conflicts msg rs) s w =
      (s\<lparr>retryCount := retryCount s + length rs,
         retryDelay := last (retryDelay s # backoff_delays (retryDelay s) (jitters rs))\<rparr>, w,
       backoff_delays (retryDelay s) (jitters rs))"
proof (induction rs arbitrary: s)
  case Nil
  then show ?case by (simp add: conflicts_def jitters_def)
next
  case (Cons r rs)
  let ?s' = "s\<lparr>retryCount := retryCount s + 1,
               retryDelay := min 60000 (retryDelay s * 1.5) + r * 1000\<rparr>"
  from Cons.prems have lt: "retryCount s < 10" by simp
  have step: "pollOnce h iv (Thrown msg) r s w = (?s', w, Some (retryDelay ?s'))"
    using pollOnce_conflict [OF Cons.prems(1) assms] lt by simp
  have a: "isPollingActive ?s'" using Cons.prems by simp
  have b: "retryCount ?s' + length rs \<le> 10" using Cons.prems by simp
  from Cons.IH [OF a b] step show ?case
    by (simp add: conflicts_def jitters_def)
qed

lemma conflicts_stop:
  assumes "is_conflict msg"
  shows "isPollingActive s \<Longrightarrow> retryCount s + length rs = 11 \<Longrightarrow> retryCount s \<le> 10 \<Longrightarrow>
    \<exists>s'. poll_loop h iv (conflicts msg rs) s w
            = (s', w, backoff_delays (retryDelay s) (jitters (butlast rs)))
        \<and> \<not> isPollingActive s' \<and> retryCount s' = 11 \<and> lastUpdateId s' = lastUpdateId s"
proof (induction rs arbitrary: s)
  case Nil
  then show ?case by simp
next
  case (Cons r rs)
  show ?case
  proof (cases "retryCount s < 10")
    case False
    with Cons.prems have c: "retryCount s = 10" by simp
    with Cons.prems have rs: "rs = []" by simp
    from pollOnce_conflict [OF Cons.prems(1) assms, of h iv r w] c rs show ?thesis
      by (simp add: conflicts_def jitters_def)
  next
    case True
    let ?s' = "s\<lparr>retryCount := retryCount s + 1,
                 retryDelay := min 60000 (retryDelay s * 1.5) + r * 1000\<rparr>"
    have step: "pollOnce h iv (Thrown msg) r s w = (?s', w, Some (retryDelay ?s'))"
      using pollOnce_conflict [OF Cons.prems(1) assms] True by simp
    have a: "isPollingActive ?s'" using Cons.prems by simp
    have b: "retryCount ?s' + length rs = 11" using Cons.prems by simp
    have c: "retryCount ?s' \<le> 10" using True by simp
    from True Cons.prems have ne: "rs \<noteq> []" by auto
    from Cons.IH [OF a b c] obtain s'' where
      "poll_loop h iv (conflicts msg rs) ?s' w
         = (s'', w, backoff_delays (retryDelay ?s') (jitters (butlast rs)))"
      "\<not> isPollingActive s''" "retryCount s'' = 11" "lastUpdateId s'' = lastUpdateId ?s'"
      by blast
    with step ne show ?thesis
      by (simp add: conflicts_def jitters_def)
  qed
qed

section \<open>The map and the handlers of the route\<close>

lemma same_key_eq: "same_key a b \<Longrightarrow> a = b"
  by (cases a) simp_all


lemma Map_get_set:
  "Map_get k' (Map_set k v m) = (if same_key k k' then Some v else Map_get k' m)"
proof (induction m)
  case Nil
  then show ?case by simp
next
  case (Cons p m)
  obtain k0 v0 where p: "p = (k0, v0)" by (cases p)
  show ?case
  proof (cases "same_key k0 k")
    case True
    then have "k0 = k" by (rule same_key_eq)
    with True p show ?thesis by simp
  next
    case False
    have "same_key k0 k' \<Longrightarrow> \<not> same_key k k'"
    proof
      assume a: "same_key k0 k'" and b: "same_key k k'"
      from a b have "k0 = k'" "k = k'" by (auto dest: same_key_eq)
      with a False show False by simp
    qed
    with False p Cons show ?thesis by auto
  qed
qed











text \<open>An answer: an update with a message whose text is not empty and is no command.\<close>

lemma webhook_answer:
  assumes "update_id u \<noteq> 0" "message u = Some msg" "msg_text msg = Some t" "t \<noteq> []"
    "hd t \<noteq> CHR ''/''"
  shows "webhook env u m =
    (case Map_get (chat_id msg) m of
       Some emailData \<Rightarrow>
         (case answer_flow env (chat_id msg) emailData (JObj (parseNumberedAnswers (JStr t))) m of
            (m', calls) \<Rightarrow> (m', calls, 200))
     | None \<Rightarrow> (m, [SendMessage (chat_id msg) NoActiveEmail], 200))"
  using assms by (simp add: webhook_def Let_def)



lemma answer_flow_calls:
  "\<exists>rest. snd (answer_flow env c ed data m) = GenerateReply (ensure_fields (originalEmail ed)) # rest"
  by (auto simp: answer_flow_def Let_def split: option.splits)



lemma webhook_absent:
  "update_id u \<noteq> 0 \<and> message u = Some msg \<and> msg_text msg = Some t \<and> t \<noteq> []
     \<and> hd t \<noteq> CHR ''/'' \<and> Map_get (chat_id msg) m = None
   \<Longrightarrow> webhook env u m = (m, [SendMessage (chat_id msg) NoActiveEmail], 200)"
  using webhook_answer [of u msg t env m] by simp

section \<open>The state store\<close>

lemma getEmail_absent:
  "map_of m (String_js c) = None \<Longrightarrow> getEmail now c m = (None, m)"
  by (simp add: getEmail_def)

lemma storeEmail_keys_distinct:
  "distinct (map fst m) \<Longrightarrow> distinct (map fst (storeEmail now c d m))"
  by (simp add: storeEmail_def distinct_update split: option.splits)

lemma getEmail_keys_distinct:
  "distinct (map fst m) \<Longrightarrow> distinct (map fst (snd (getEmail now c m)))"
  by (simp add: getEmail_def distinct_delete split: option.splits)

lemma clearEmail_keys_distinct:
  "distinct (map fst m) \<Longrightarrow> distinct (map fst (clearEmail c m))"
  by (simp add: clearEmail_def distinct_delete)

lemma filter_key_update:
  "distinct (map fst m) \<Longrightarrow>
   filter (\<lambda>p. fst p = k) (AList.update k v m) = [(k, v)]"
proof (induction m)
  case Nil
  then show ?case by simp
next
  case (Cons p m)
  obtain k' v' where p: "p = (k', v')" by (cases p)
  show ?case
  proof (cases "k' = k")
    case True
    from Cons.prems p True have "k \<notin> fst ` set m" by auto
    then have "filter (\<lambda>p. fst p = k) m = []"
      by (auto simp: filter_empty_conv)
    with p True show ?thesis by simp
  next
    case False
    with Cons p show ?thesis by simp
  qed
qed

text \<open>
  C5.  A state older than 24 hours at read time: \<open>getEmail\<close> returns \<open>null\<close> and
  deletes the entry, so the key is no longer in the map, no other key is touched, and a
  second \<open>getEmail\<close> for the same chat, at any later clock value, returns \<open>null\<close> again
  and leaves the map as it is.  Nothing but a read removes an expired entry: the
  functions of the manager are the only code that changes the map.
\<close>

theorem getEmail_expired:
  assumes "truthy c"
    and "map_of m (String_js c) = Some e"
    and "now - timestamp e > expiryTime"
  shows "getEmail now c m = (None, AList.delete (String_js c) m)
    \<and> map_of (snd (getEmail now c m)) (String_js c) = None
    \<and> (\<forall>k. k \<noteq> String_js c \<longrightarrow> map_of (snd (getEmail now c m)) k = map_of m k)
    \<and> getEmail now' c (snd (getEmail now c m)) = (None, snd (getEmail now c m))"
proof -
  have g: "getEmail now c m = (None, AList.delete (String_js c) m)"
    using assms by (simp add: getEmail_def)
  have a: "map_of (AList.delete (String_js c) m) (String_js c) = None"
    by (simp add: delete_conv')
  have o: "\<forall>k. k \<noteq> String_js c \<longrightarrow> map_of (AList.delete (String_js c) m) k = map_of m k"
    by simp
  have r: "getEmail now' c (AList.delete (String_js c) m) = (None, AList.delete (String_js c) m)"
    using a by (rule getEmail_absent)
  from g a o r show ?thesis by simp
qed

theorem getEmail_expired_witness:
  "truthy (JNum 123)
   \<and> map_of [(''123'', state0)] (String_js (JNum 123)) = Some state0
   \<and> 86400001 - timestamp state0 > expiryTime
   \<and> getEmail 86400001 (JNum 123) [(''123'', state0)] = (None, [])
   \<and> getEmail 86400002 (JNum 123) [] = (None, [])"
proof -
  have s: "show_nat 123 = ''123''"
    by code_simp
  have h1: "truthy (JNum 123)" by simp
  have h2: "map_of [(''123'', state0)] (String_js (JNum 123)) = Some state0"
    by (simp add: s)
  have h3: "86400001 - timestamp state0 > expiryTime"
    by (simp add: state0_def expiryTime_def)
  from getEmail_expired [OF h1 h2 h3, of 86400002]
  have a: "getEmail 86400001 (JNum 123) [(''123'', state0)]
             = (None, AList.delete (String_js (JNum 123)) [(''123'', state0)])"
    and b: "getEmail 86400002 (JNum 123) (snd (getEmail 86400001 (JNum 123) [(''123'', state0)]))
             = (None, snd (getEmail 86400001 (JNum 123) [(''123'', state0)]))"
    by blast+
  have a': "getEmail 86400001 (JNum 123) [(''123'', state0)] = (None, [])"
    using a by (simp add: s)
  from b have b': "getEmail 86400002 (JNum 123) [] = (None, [])"
    by (simp only: a' snd_conv)
  from h1 h2 h3 a' b' show ?thesis by blast
qed

text \<open>
  C6.  The keys of the map stay pairwise distinct under every operation of the manager,
  so a chat has at most one state.  Two stores for the same chat leave exactly the map
  that the second store alone would leave after any other first state: the map after
  the second store does not depend on the first state, so neither \<open>getEmail\<close> nor
  \<open>listActiveEmails\<close> can show it.  The chat's key maps to the second state, stamped
  with the time of the second store, and is listed once.  A store with a falsy chat id
  or without a state changes nothing.
\<close>

theorem storeEmail_replaces:
  assumes "distinct (map fst m)" and "truthy c"
  shows "distinct (map fst (storeEmail t1 c (Some d1) m))
    \<and> distinct (map fst (snd (getEmail now c m)))
    \<and> distinct (map fst (clearEmail c m))
    \<and> storeEmail t2 c (Some d2) (storeEmail t1 c (Some d1) m)
        = storeEmail t2 c (Some d2) (storeEmail t1' c (Some d1') m)
    \<and> map_of (storeEmail t2 c (Some d2) (storeEmail t1 c (Some d1) m)) (String_js c)
        = Some (d2\<lparr>timestamp := t2\<rparr>)
    \<and> filter (\<lambda>p. fst p = String_js c) (storeEmail t2 c (Some d2) (storeEmail t1 c (Some d1) m))
        = [(String_js c, d2\<lparr>timestamp := t2\<rparr>)]
    \<and> storeEmail t c' None m = m
    \<and> (\<not> truthy c' \<longrightarrow> storeEmail t c' d m = m)"
proof -
  have i1: "distinct (map fst (storeEmail t1 c (Some d1) m))"
    using assms(1) by (rule storeEmail_keys_distinct)
  have i2: "distinct (map fst (snd (getEmail now c m)))"
    using assms(1) by (rule getEmail_keys_distinct)
  have i3: "distinct (map fst (clearEmail c m))"
    using assms(1) by (rule clearEmail_keys_distinct)
  have e: "storeEmail t2 c (Some d2) (storeEmail t1 c (Some d1) m)
        = storeEmail t2 c (Some d2) (storeEmail t1' c (Some d1') m)"
    using assms(2) by (simp add: storeEmail_def)
  have g: "map_of (storeEmail t2 c (Some d2) (storeEmail t1 c (Some d1) m)) (String_js c)
        = Some (d2\<lparr>timestamp := t2\<rparr>)"
    using assms(2) by (simp add: storeEmail_def update_conv')
  have "distinct (map fst (AList.update (String_js c) (d1\<lparr>timestamp := t1\<rparr>) m))"
    using assms(1) by (simp add: distinct_update)
  then have l: "filter (\<lambda>p. fst p = String_js c) (storeEmail t2 c (Some d2) (storeEmail t1 c (Some d1) m))
        = [(String_js c, d2\<lparr>timestamp := t2\<rparr>)]"
    using assms(2) by (simp add: storeEmail_def filter_key_update del: update_last)
  have n1: "storeEmail t c' None m = m"
    by (simp add: storeEmail_def)
  have n2: "\<not> truthy c' \<longrightarrow> storeEmail t c' d m = m"
    by (simp add: storeEmail_def)
  from i1 i2 i3 e g l n1 n2 show ?thesis by blast
qed

theorem storeEmail_replaces_witness:
  "distinct (map fst ([] :: activeEmails)) \<and> truthy (JStr ''7'')
   \<and> storeEmail 20 (JStr ''7'') (Some state1) (storeEmail 10 (JStr ''7'') (Some state0) [])
       = [(''7'', state1\<lparr>timestamp := 20\<rparr>)]
   \<and> fst (getEmail 30 (JStr ''7'')
         (storeEmail 20 (JStr ''7'') (Some state1) (storeEmail 10 (JStr ''7'') (Some state0) [])))
       = Some (state1\<lparr>timestamp := 20\<rparr>)
   \<and> map s_subject (listActiveEmails 30
         (storeEmail 20 (JStr ''7'') (Some state1) (storeEmail 10 (JStr ''7'') (Some state0) [])))
       = [Some ''Invoice'']
   \<and> \<not> truthy JUndefined \<and> storeEmail 40 JUndefined (Some state0) [] = []"
proof -
  have h1: "distinct (map fst ([] :: activeEmails))" by simp
  have h2: "truthy (JStr ''7'')" by simp
  have h3: "\<not> truthy JUndefined" by simp
  from storeEmail_replaces [OF h1 h2, of 10 state0 30 20 state1 10 state0 40 JUndefined "Some state0"]
  have "storeEmail 40 JUndefined (Some state0) [] = []"
    and "map_of (storeEmail 20 (JStr ''7'') (Some state1) (storeEmail 10 (JStr ''7'') (Some state0) []))
           (String_js (JStr ''7'')) = Some (state1\<lparr>timestamp := 20\<rparr>)"
    using h3 by blast+
  then show ?thesis
    by (simp add: storeEmail_def getEmail_def listActiveEmails_def expiryTime_def state1_def)
qed

section \<open>Parsing numbered answers\<close>










text \<open>
  C2.  From a state in which the instance is active with the counter at 0 and the
  delay at 5000 (as after the start, and after every successful fetch), eleven
  conflict errors in a row: each of the first ten sets a timer and leaves the loop
  backing off, with the counter at the number of conflicts so far; the eleventh sets
  no timer and stops the loop, and a stopped loop stays stopped whatever comes.  The
  ten delays follow \<open>min(60000, previousDelay * 1.5) + jitter\<close> from 5000 on, each jitter
  below 1000; without their own jitter they never decrease and never exceed 60000.
  A successful fetch in an active loop sets the counter to 0 and the delay to 5000
  and schedules the next poll after the standard interval.
\<close>

theorem eleven_conflicts_stop:
  assumes "is_conflict msg" "length rs = 11" "list_all (\<lambda>r. 0 \<le> r \<and> r < 1) rs"
    and "isPollingActive s0" "retryCount s0 = 0" "retryDelay s0 = 5000"
  shows "phase_of s0 = POLLING
    \<and> (\<forall>k. 1 \<le> k \<and> k \<le> 10 \<longrightarrow>
         (\<exists>s. poll_loop h iv (conflicts msg (take k rs)) s0 w
                = (s, w, backoff_delays 5000 (jitters (take k rs)))
              \<and> phase_of s = BACKOFF \<and> retryCount s = k))
    \<and> (\<exists>s. poll_loop h iv (conflicts msg rs) s0 w
                = (s, w, backoff_delays 5000 (jitters (take 10 rs)))
            \<and> phase_of s = STOPPED
            \<and> (\<forall>inputs. poll_loop h iv inputs s w = (s, w, []))
            \<and> (\<forall>response random. pollOnce h iv response random s w = (s, w, None)))
    \<and> backoff_delays 5000 (jitters (take 10 rs))
        = map2 (+) (backoff_bases 5000 (jitters (take 10 rs))) (jitters (take 10 rs))
    \<and> list_all (\<lambda>j. 0 \<le> j \<and> j < 1000) (jitters rs)
    \<and> sorted (backoff_bases 5000 (jitters (take 10 rs)))
    \<and> list_all (\<lambda>b. b \<le> 60000) (backoff_bases 5000 (jitters (take 10 rs)))
    \<and> (\<forall>s us random. isPollingActive s \<longrightarrow>
         (\<exists>s' w'. pollOnce h iv (Result us) random s w = (s', w', Some iv)
            \<and> retryCount s' = 0 \<and> retryDelay s' = 5000 \<and> phase_of s' = POLLING))"
proof -
  have p0: "phase_of s0 = POLLING"
    using assms(4,5) by (simp add: phase_of_def)
  have boff: "\<forall>k. 1 \<le> k \<and> k \<le> 10 \<longrightarrow>
         (\<exists>s. poll_loop h iv (conflicts msg (take k rs)) s0 w
                = (s, w, backoff_delays 5000 (jitters (take k rs)))
              \<and> phase_of s = BACKOFF \<and> retryCount s = k)"
  proof (intro allI impI)
    fix k :: nat assume k: "1 \<le> k \<and> k \<le> 10"
    with assms(2) have len: "length (take k rs) = k" by simp
    with k assms(5) have le: "retryCount s0 + length (take k rs) \<le> 10" by simp
    let ?s = "s0\<lparr>retryCount := retryCount s0 + length (take k rs),
                retryDelay := last (retryDelay s0 # backoff_delays (retryDelay s0) (jitters (take k rs)))\<rparr>"
    from conflicts_backoff [OF assms(1,4) le, of h iv w]
    have "poll_loop h iv (conflicts msg (take k rs)) s0 w
            = (?s, w, backoff_delays 5000 (jitters (take k rs)))"
      by (simp add: assms(6))
    moreover from k len assms(4,5) have "phase_of ?s = BACKOFF" "retryCount ?s = k"
      by (simp_all add: phase_of_def)
    ultimately show "\<exists>s. poll_loop h iv (conflicts msg (take k rs)) s0 w
                = (s, w, backoff_delays 5000 (jitters (take k rs)))
              \<and> phase_of s = BACKOFF \<and> retryCount s = k"
      by blast
  qed
  from assms(2) have bl: "butlast rs = take 10 rs" by (simp add: butlast_conv_take)
  from assms(2,5) have e: "retryCount s0 + length rs = 11" "retryCount s0 \<le> 10" by simp_all
  from conflicts_stop [OF assms(1,4) e, of h iv w] obtain s where
    s: "poll_loop h iv (conflicts msg rs) s0 w
          = (s, w, backoff_delays (retryDelay s0) (jitters (butlast rs)))"
    "\<not> isPollingActive s" by blast
  have stop: "\<exists>s. poll_loop h iv (conflicts msg rs) s0 w
                = (s, w, backoff_delays 5000 (jitters (take 10 rs)))
            \<and> phase_of s = STOPPED
            \<and> (\<forall>inputs. poll_loop h iv inputs s w = (s, w, []))
            \<and> (\<forall>response random. pollOnce h iv response random s w = (s, w, None))"
  proof (intro exI [of _ s] conjI allI)
    from s(1) show "poll_loop h iv (conflicts msg rs) s0 w
        = (s, w, backoff_delays 5000 (jitters (take 10 rs)))"
      by (simp add: assms(6) bl)
    from s(2) show "phase_of s = STOPPED" by (simp add: phase_of_def)
    from s(2) show "poll_loop h iv inputs s w = (s, w, [])" for inputs
      by (rule poll_loop_stopped)
    from s(2) show "pollOnce h iv response random s w = (s, w, None)" for response random
      by (rule pollOnce_stopped)
  qed
  have rel: "backoff_delays 5000 (jitters (take 10 rs))
        = map2 (+) (backoff_bases 5000 (jitters (take 10 rs))) (jitters (take 10 rs))"
    by (rule backoff_delays_bases)
  have jit: "list_all (\<lambda>j. 0 \<le> j \<and> j < 1000) (jitters rs)"
    using assms(3) by (auto simp: jitters_def list_all_iff)
  have nn: "list_all (\<lambda>j. 0 \<le> j) (jitters (take 10 rs))"
    using assms(3) by (auto simp: jitters_def list_all_iff dest: in_set_takeD)
  have srt: "sorted (backoff_bases 5000 (jitters (take 10 rs)))"
    by (rule backoff_bases_sorted [OF _ nn]) simp
  have cap: "list_all (\<lambda>b. b \<le> 60000) (backoff_bases 5000 (jitters (take 10 rs)))"
    unfolding list_all_iff
  proof
    fix x assume "x \<in> set (backoff_bases 5000 (jitters (take 10 rs)))"
    from backoff_bases_bounds [OF _ nn this] show "x \<le> 60000" by simp
  qed
  have ok: "\<forall>s us random. isPollingActive s \<longrightarrow>
         (\<exists>s' w'. pollOnce h iv (Result us) random s w = (s', w', Some iv)
            \<and> retryCount s' = 0 \<and> retryDelay s' = 5000 \<and> phase_of s' = POLLING)"
  proof (intro allI impI)
    fix s :: poll_state and us :: "update list" and random :: real
    assume "isPollingActive s"
    from pollOnce_success [OF this, of h iv us random w]
    show "\<exists>s' w'. pollOnce h iv (Result us) random s w = (s', w', Some iv)
            \<and> retryCount s' = 0 \<and> retryDelay s' = 5000 \<and> phase_of s' = POLLING"
      by (auto simp: phase_of_def)
  qed
  from p0 boff stop rel jit srt cap ok show ?thesis by blast
qed

theorem eleven_conflicts_stop_witness:
  "is_conflict conflict_message \<and> length (replicate 11 (1 / 2 :: real)) = 11
   \<and> list_all (\<lambda>r. 0 \<le> r \<and> r < 1) (replicate 11 (1 / 2 :: real))
   \<and> isPollingActive (startPolling initial_poll_state)
   \<and> retryCount (startPolling initial_poll_state) = 0
   \<and> retryDelay (startPolling initial_poll_state) = 5000
   \<and> (\<exists>s. poll_loop flaky 2000 (conflicts conflict_message (replicate 11 (1 / 2)))
              (startPolling initial_poll_state) []
            = (s, [], [8000, 12500, 19250, 29375, 44562.5, 60500, 60500, 60500, 60500, 60500])
          \<and> phase_of s = STOPPED)
   \<and> backoff_bases 5000 (jitters (replicate 10 (1 / 2)))
       = [7500, 12000, 18750, 28875, 44062.5, 60000, 60000, 60000, 60000, 60000]"
proof -
  have h1: "is_conflict conflict_message"
    by (simp add: is_conflict_def conflict_message_def)
  have h2: "length (replicate 11 (1 / 2 :: real)) = 11" by simp
  have h3: "list_all (\<lambda>r. 0 \<le> r \<and> r < 1) (replicate 11 (1 / 2 :: real))"
    by (simp add: list_all_iff)
  have h4: "isPollingActive (startPolling initial_poll_state)"
    and h5: "retryCount (startPolling initial_poll_state) = 0"
    and h6: "retryDelay (startPolling initial_poll_state) = 5000"
    by (simp_all add: startPolling_def initial_poll_state_def)
  have t: "take 10 (replicate 11 (1 / 2 :: real)) = replicate 10 (1 / 2)" by simp
  have d: "backoff_delays 5000 (jitters (replicate 10 (1 / 2)))
      = [8000, 12500, 19250, 29375, 44562.5, 60500, 60500, 60500, 60500, 60500]"
    by (simp add: jitters_def numeral_eq_Suc min_def)
  have b: "backoff_bases 5000 (jitters (replicate 10 (1 / 2)))
      = [7500, 12000, 18750, 28875, 44062.5, 60000, 60000, 60000, 60000, 60000]"
    by (simp add: jitters_def numeral_eq_Suc min_def)
  from eleven_conflicts_stop [OF h1 h2 h3 h4 h5 h6, of flaky 2000 "[]"]
  have "\<exists>s. poll_loop flaky 2000 (conflicts conflict_message (replicate 11 (1 / 2)))
              (startPolling initial_poll_state) []
            = (s, [], backoff_delays 5000 (jitters (take 10 (replicate 11 (1 / 2)))))
          \<and> phase_of s = STOPPED"
    by blast
  then have "\<exists>s. poll_loop flaky 2000 (conflicts conflict_message (replicate 11 (1 / 2)))
              (startPolling initial_poll_state) []
            = (s, [], [8000, 12500, 19250, 29375, 44562.5, 60500, 60500, 60500, 60500, 60500])
          \<and> phase_of s = STOPPED"
    by (simp only: t d)
  with h1 h2 h3 h4 h5 h6 b show ?thesis by blast
qed






text \<open>
  C7, as the code has it.  An answer for a chat that has no entry in the map of the
  route: the handler sends the one notice that no email is active and answers 200; it
  calls neither the reply generator nor the draft store, and the map is as before.
  The route never looks at the age of an entry, so an entry is absent only when it was
  never stored or has been cleared.
\<close>

theorem no_active_email:
  assumes "update_id u \<noteq> 0" "message u = Some msg" "msg_text msg = Some t" "t \<noteq> []"
    "hd t \<noteq> CHR ''/''"
    and "Map_get (chat_id msg) m = None"
  shows "webhook env u m = (m, [SendMessage (chat_id msg) NoActiveEmail], 200)"
  using webhook_answer [OF assms(1-5), of env m] assms(6) by simp

theorem no_active_email_witness:
  "update_id (answer_update (JNum 8) ''1. Yes'') \<noteq> 0
   \<and> message (answer_update (JNum 8) ''1. Yes'') = Some \<lparr>chat_id = JNum 8, msg_text = Some ''1. Yes''\<rparr>
   \<and> Map_get (JNum 8) [(JNum 7, state0)] = None
   \<and> webhook env_ok (answer_update (JNum 8) ''1. Yes'') [(JNum 7, state0)]
       = ([(JNum 7, state0)], [SendMessage (JNum 8) NoActiveEmail], 200)"
proof -
  let ?u = "answer_update (JNum 8) ''1. Yes''"
  let ?msg = "\<lparr>chat_id = JNum 8, msg_text = Some ''1. Yes''\<rparr>"
  have h1: "update_id ?u \<noteq> 0" and h2: "message ?u = Some ?msg"
    by (simp_all add: answer_update_def)
  have h3: "msg_text ?msg = Some ''1. Yes''" and h4: "''1. Yes'' \<noteq> []"
    and h5: "hd ''1. Yes'' \<noteq> CHR ''/''"
    by simp_all
  have h6: "Map_get (chat_id ?msg) [(JNum 7, state0)] = None" by simp
  have h6': "Map_get (JNum 8) [(JNum 7, state0)] = None" by simp
  from no_active_email [OF h1 h2 h3 h4 h5 h6, of env_ok]
  have "webhook env_ok ?u [(JNum 7, state0)]
       = ([(JNum 7, state0)], [SendMessage (JNum 8) NoActiveEmail], 200)"
    by simp
  with h1 h2 h6' show ?thesis by blast
qed

text \<open>
  C7 as stated fails for an expired state: the entry was stored more than 24 hours
  before, and the handler still generates a reply from it.
\<close>

theorem expired_state_counterexample:
  "90000000 - timestamp state0 > expiryTime
   \<and> fst (snd (webhook env_ok (answer_update (JNum 7) ''1. Yes'') [(JNum 7, state0)]))
     = [GenerateReply (originalEmail state0), SendMessage (JNum 7) (DraftReply ''Dear customer''),
        CreateDraft, SendMessage (JNum 7) DraftSaved]"
  by (simp add: webhook_def answer_update_def answer_flow_def Let_def env_ok_def
      sendMessage_def ensure_fields_def missing_def state0_def expiryTime_def)

text \<open>
  C9.  The map of the route finds an entry only under a key that is the same value of
  the same type as the key it was stored under: a string is never the same key as a
  number.  A question set registered under the string of a chat id is not found for an
  update that carries the number, and the chat gets the notice that no email is
  active; registered under the value the update carries, the answer reaches the reply
  generator.
\<close>

theorem route_keys_strict:
  "Map_get k' (Map_set k v m) = (if same_key k k' then Some v else Map_get k' m)
   \<and> (same_key k k' \<longrightarrow> k = k')
   \<and> \<not> same_key (JStr x) (JNum n)
   \<and> (update_id u \<noteq> 0 \<and> message u = Some msg \<and> msg_text msg = Some t \<and> t \<noteq> []
        \<and> hd t \<noteq> CHR ''/'' \<and> chat_id msg = JNum n \<and> x \<noteq> [] \<and> qs \<noteq> []
        \<and> Map_get (JNum n) r = None
      \<longrightarrow> webhook env u (fst (send_email_questions env now (JStr x) (JArr qs) (Some e) r))
          = (fst (send_email_questions env now (JStr x) (JArr qs) (Some e) r),
             [SendMessage (JNum n) NoActiveEmail], 200))
   \<and> (update_id u \<noteq> 0 \<and> message u = Some msg \<and> msg_text msg = Some t \<and> t \<noteq> []
        \<and> hd t \<noteq> CHR ''/'' \<and> truthy k \<and> same_key k (chat_id msg) \<and> qs \<noteq> []
      \<longrightarrow> (\<exists>rest. fst (snd (webhook env u
                (fst (send_email_questions env now k (JArr qs) (Some e) r))))
              = GenerateReply (ensure_fields e) # rest))"
proof -
  have 1: "Map_get k' (Map_set k v m) = (if same_key k k' then Some v else Map_get k' m)"
    by (rule Map_get_set)
  have 2: "same_key k k' \<longrightarrow> k = k'"
    using same_key_eq by blast
  have 3: "\<not> same_key (JStr x) (JNum n)" by simp
  have 4: "update_id u \<noteq> 0 \<and> message u = Some msg \<and> msg_text msg = Some t \<and> t \<noteq> []
        \<and> hd t \<noteq> CHR ''/'' \<and> chat_id msg = JNum n \<and> x \<noteq> [] \<and> qs \<noteq> []
        \<and> Map_get (JNum n) r = None
      \<longrightarrow> webhook env u (fst (send_email_questions env now (JStr x) (JArr qs) (Some e) r))
          = (fst (send_email_questions env now (JStr x) (JArr qs) (Some e) r),
             [SendMessage (JNum n) NoActiveEmail], 200)"
  proof
    assume a: "update_id u \<noteq> 0 \<and> message u = Some msg \<and> msg_text msg = Some t \<and> t \<noteq> []
        \<and> hd t \<noteq> CHR ''/'' \<and> chat_id msg = JNum n \<and> x \<noteq> [] \<and> qs \<noteq> []
        \<and> Map_get (JNum n) r = None"
    let ?r = "fst (send_email_questions env now (JStr x) (JArr qs) (Some e) r)"
    from a have "?r = Map_set (JStr x) \<lparr>originalEmail = e, questions = qs, timestamp = now\<rparr> r"
      by (simp add: send_email_questions_def)
    with a have "Map_get (chat_id msg) ?r = None" by (simp add: Map_get_set)
    with a show "webhook env u ?r = (?r, [SendMessage (JNum n) NoActiveEmail], 200)"
      using webhook_absent [of u msg t ?r env] by simp
  qed
  have 5: "update_id u \<noteq> 0 \<and> message u = Some msg \<and> msg_text msg = Some t \<and> t \<noteq> []
        \<and> hd t \<noteq> CHR ''/'' \<and> truthy k \<and> same_key k (chat_id msg) \<and> qs \<noteq> []
      \<longrightarrow> (\<exists>rest. fst (snd (webhook env u
                (fst (send_email_questions env now k (JArr qs) (Some e) r))))
              = GenerateReply (ensure_fields e) # rest)"
  proof
    assume a: "update_id u \<noteq> 0 \<and> message u = Some msg \<and> msg_text msg = Some t \<and> t \<noteq> []
        \<and> hd t \<noteq> CHR ''/'' \<and> truthy k \<and> same_key k (chat_id msg) \<and> qs \<noteq> []"
    let ?ed = "\<lparr>originalEmail = e, questions = qs, timestamp = now\<rparr>"
    let ?r = "fst (send_email_questions env now k (JArr qs) (Some e) r)"
    let ?data = "JObj (parseNumberedAnswers (JStr t))"
    from a have "?r = Map_set k ?ed r" by (simp add: send_email_questions_def)
    with a have g: "Map_get (chat_id msg) ?r = Some ?ed" by (simp add: Map_get_set)
    from a have "webhook env u ?r =
      (case Map_get (chat_id msg) ?r of
         Some emailData \<Rightarrow>
           (case answer_flow env (chat_id msg) emailData ?data ?r of
              (m', calls) \<Rightarrow> (m', calls, 200))
       | None \<Rightarrow> (?r, [SendMessage (chat_id msg) NoActiveEmail], 200))"
      by (intro webhook_answer) simp_all
    with g have "fst (snd (webhook env u ?r)) = snd (answer_flow env (chat_id msg) ?ed ?data ?r)"
      by (simp add: case_prod_beta)
    with answer_flow_calls [of env "chat_id msg" ?ed ?data ?r]
    show "\<exists>rest. fst (snd (webhook env u ?r)) = GenerateReply (ensure_fields e) # rest"
      by simp
  qed
  from 1 2 3 4 5 show ?thesis by blast
qed

theorem route_keys_strict_witness:
  "update_id (answer_update (JNum 123) ''1. Yes'') \<noteq> 0
   \<and> message (answer_update (JNum 123) ''1. Yes'')
       = Some \<lparr>chat_id = JNum 123, msg_text = Some ''1. Yes''\<rparr>
   \<and> Map_get (JNum 123) ([] :: routeEmails) = None
   \<and> fst (send_email_questions env_ok 5 (JStr ''123'') (JArr [''Price?'']) (Some (originalEmail state0)) [])
       = [(JStr ''123'', \<lparr>originalEmail = originalEmail state0, questions = [''Price?''], timestamp = 5\<rparr>)]
   \<and> fst (snd (webhook env_ok (answer_update (JNum 123) ''1. Yes'')
        (fst (send_email_questions env_ok 5 (JStr ''123'') (JArr [''Price?''])
               (Some (originalEmail state0)) []))))
       = [SendMessage (JNum 123) NoActiveEmail]
   \<and> truthy (JNum 123) \<and> same_key (JNum 123) (JNum 123)
   \<and> (\<exists>rest. fst (snd (webhook env_ok (answer_update (JNum 123) ''1. Yes'')
        (fst (send_email_questions env_ok 5 (JNum 123) (JArr [''Price?''])
               (Some (originalEmail state0)) []))))
       = GenerateReply (ensure_fields (originalEmail state0)) # rest)"
proof -
  let ?u = "answer_update (JNum 123) ''1. Yes''"
  let ?msg = "\<lparr>chat_id = JNum 123, msg_text = Some ''1. Yes''\<rparr>"
  let ?e = "originalEmail state0"
  have h: "update_id ?u \<noteq> 0 \<and> message ?u = Some ?msg \<and> msg_text ?msg = Some ''1. Yes''
      \<and> ''1. Yes'' \<noteq> [] \<and> hd ''1. Yes'' \<noteq> CHR ''/'' \<and> chat_id ?msg = JNum 123
      \<and> ''123'' \<noteq> [] \<and> [''Price?''] \<noteq> [] \<and> Map_get (JNum 123) ([] :: routeEmails) = None"
    by (simp add: answer_update_def)
  have h': "update_id ?u \<noteq> 0 \<and> message ?u = Some ?msg \<and> msg_text ?msg = Some ''1. Yes''
      \<and> ''1. Yes'' \<noteq> [] \<and> hd ''1. Yes'' \<noteq> CHR ''/'' \<and> truthy (JNum 123)
      \<and> same_key (JNum 123) (chat_id ?msg) \<and> [''Price?''] \<noteq> []"
    by (simp add: answer_update_def)
  note T = route_keys_strict [of "JNum 123" "JNum 123" state0 "[]" "''123''" 123 ?u ?msg
      "''1. Yes''" "[''Price?'']" "[]" env_ok 5 ?e]
  from T h have a: "webhook env_ok ?u
        (fst (send_email_questions env_ok 5 (JStr ''123'') (JArr [''Price?'']) (Some ?e) []))
      = (fst (send_email_questions env_ok 5 (JStr ''123'') (JArr [''Price?'']) (Some ?e) []),
         [SendMessage (JNum 123) NoActiveEmail], 200)"
    by blast
  from T h' have b: "\<exists>rest. fst (snd (webhook env_ok ?u
        (fst (send_email_questions env_ok 5 (JNum 123) (JArr [''Price?'']) (Some ?e) []))))
       = GenerateReply (ensure_fields ?e) # rest"
    by blast
  from a have a': "fst (snd (webhook env_ok ?u
        (fst (send_email_questions env_ok 5 (JStr ''123'') (JArr [''Price?'']) (Some ?e) []))))
       = [SendMessage (JNum 123) NoActiveEmail]"
    by simp
  have r: "fst (send_email_questions env_ok 5 (JStr ''123'') (JArr [''Price?'']) (Some ?e) [])
       = [(JStr ''123'', \<lparr>originalEmail = ?e, questions = [''Price?''], timestamp = 5\<rparr>)]"
    by (simp add: send_email_questions_def)
  have k: "truthy (JNum 123)" "same_key (JNum 123) (JNum 123)"
    "Map_get (JNum 123) ([] :: routeEmails) = None" by simp_all
  from h have h12: "update_id ?u \<noteq> 0" "message ?u = Some ?msg" by blast+
  from h12 k r a' b show ?thesis by blast
qed

end
